theory Spec2Isabelle
  imports Main
begin

section \<open>The bridge between contract orders and Bacalhau jobs (pkg/bridge/bacalhau.go)\<close>

text \<open>
  The file under verification holds two operations of \<^verbatim>\<open>xRunner\<close>:
  \<^verbatim>\<open>Create\<close> submits one job for one order event, and \<^verbatim>\<open>FindCompleted\<close> asks the
  remote system once for its jobs and sorts the tracked handles into completed and failed.
  Both talk to a remote client; the remote system is a state of type \<open>'r\<close> that every
  call may read and change, and the client is a pair of functions over that state.
  Logging is left out, except where evaluating a log argument dereferences a pointer.
\<close>

subsection \<open>Data\<close>

definition LilypadJobAnnotation :: string where
  "LilypadJobAnnotation = ''lilypad-job''"

text \<open>Go errors: a fresh error, or an error wrapped with a message (\<^verbatim>\<open>errors.Wrap\<close>).\<close>

datatype error = errors_New string | errors_Wrap error string

text \<open>
  A Go call that dereferences a nil pointer panics instead of returning.
\<close>

datatype 'a outcome = Panic | Return 'a

text \<open>
  The state of one shard. The source names \<^verbatim>\<open>model.JobStateError\<close> and
  \<^verbatim>\<open>model.JobStateCompleted\<close>; \<open>JobStateRunning\<close> stands for the states of the
  upstream enumeration that are not terminal.
\<close>

datatype JobStateType = JobStateRunning | JobStateError | JobStateCompleted

text \<open>
  \<^verbatim>\<open>model.JobState\<close>, read as the states of the shards the remote system reports,
  one entry for each shard.
\<close>

type_synonym JobState = "JobStateType list"

record Spec =
  Annotations :: "string list"

text \<open>
  \<^verbatim>\<open>model.Job\<close> with the fields the file reads or writes: \<^verbatim>\<open>Metadata.ID\<close>,
  \<^verbatim>\<open>Spec\<close> and \<^verbatim>\<open>Status.State\<close>. \<open>TotalShards\<close> stands for the part of the job
  from which the upstream package computes its shard execution count (spec, 3: the total
  number of parallel execution units the remote system created for the job).
\<close>

record Job =
  Metadata_ID :: string
  Job_Spec :: Spec
  Status_State :: JobState
  TotalShards :: int

text \<open>
  The order event (\<^verbatim>\<open>ContractSubmittedEvent\<close>): its methods \<^verbatim>\<open>OrderId()\<close> and
  \<^verbatim>\<open>Spec()\<close> are the fields of a record. The order identifier is kept as the text that
  its \<^verbatim>\<open>String()\<close> renders.
\<close>

record ContractSubmittedEvent =
  OrderId :: string
  Spec :: Spec

text \<open>
  Modelled from the spec: the event types of this package (\<^verbatim>\<open>BacalhauJobRunningEvent\<close>
  and the two terminal events) are declared elsewhere in the package. The spec (4.1)
  says that the running-job handle wraps the remote-assigned job handle together with the
  original event, and (6) that it exposes \<^verbatim>\<open>OrderId()\<close> and \<^verbatim>\<open>JobID()\<close>. The handles in
  a list given to \<^verbatim>\<open>FindCompleted\<close> are taken to be non-nil.
\<close>

record BacalhauJobRunningEvent =
  Event :: ContractSubmittedEvent
  JobID :: string

text \<open>
  Modelled from the spec: \<^verbatim>\<open>OrderId()\<close> of a running-job handle, missing with the event
  types; the order identifier of the event the handle wraps (spec, 3: stable for the
  order's lifetime).
\<close>

definition Running_OrderId :: "BacalhauJobRunningEvent \<Rightarrow> string" where
  "Running_OrderId h = OrderId (Event h)"

text \<open>
  Modelled from the spec: the method \<^verbatim>\<open>JobCreated\<close> of the order event, missing with the
  event types; it wraps the remote-assigned job handle together with the original event
  (spec, 4.1).
\<close>

definition JobCreated :: "ContractSubmittedEvent \<Rightarrow> Job \<Rightarrow> BacalhauJobRunningEvent" where
  "JobCreated e job = \<lparr>Event = e, JobID = Metadata_ID job\<rparr>"

text \<open>
  Modelled from the spec: the methods \<^verbatim>\<open>Completed()\<close> and \<^verbatim>\<open>Failed()\<close> of a running-job
  handle, missing with the event types; constructors producing the respective terminal
  event types (spec, 6), each event standing for the handle it was made from.
\<close>

datatype BacalhauJobCompletedEvent = Completed BacalhauJobRunningEvent

datatype BacalhauJobFailedEvent = Failed BacalhauJobRunningEvent

subsection \<open>The remote client\<close>

text \<open>
  \<^verbatim>\<open>publicapi.APIClient\<close>: \<^verbatim>\<open>Submit\<close> takes the job, \<^verbatim>\<open>List\<close> takes the included tags
  and the page size (the other arguments of the call are constants). Each returns a Go
  pair of a value and an error, and the next state of the remote system. A call that
  runs into the five-second deadline returns an error like any other failure.
\<close>

record 'r APIClient =
  Submit :: "Job \<Rightarrow> 'r \<Rightarrow> (Job option \<times> error option) \<times> 'r"
  List :: "string list \<Rightarrow> nat \<Rightarrow> 'r \<Rightarrow> (Job list \<times> error option) \<times> 'r"

subsection \<open>The state predicates of the upstream job package\<close>

text \<open>
  \<^verbatim>\<open>FindCompleted\<close> builds three predicates with functions of the upstream package
  \<^verbatim>\<open>bacalhau/pkg/job\<close>. They are parameters of the model: a record of the four
  functions called.
\<close>

type_synonym CheckStatesFunction = "JobState \<Rightarrow> bool \<times> error option"

record JobPkg =
  GetJobTotalExecutionCount :: "Job \<Rightarrow> int"
  WaitForTerminalStates :: "int \<Rightarrow> CheckStatesFunction"
  WaitThrowErrors :: "JobStateType list \<Rightarrow> CheckStatesFunction"
  WaitForJobStates :: "(JobStateType \<rightharpoonup> int) \<Rightarrow> CheckStatesFunction"

text \<open>
  The claims that speak of shard tallies need to know what these functions compute. The
  following definitions give the package as the spec describes it.
\<close>

text \<open>
  Modelled from the spec: \<^verbatim>\<open>IsTerminal\<close> of the upstream state type is not in the
  repository. Glossary: a terminal state is a state from which no further transition
  occurs (completed or errored).
\<close>

definition IsTerminal :: "JobStateType \<Rightarrow> bool" where
  "IsTerminal s = (s = JobStateCompleted \<or> s = JobStateError)"

text \<open>
  Modelled from the spec: \<^verbatim>\<open>job.GetJobTotalExecutionCount\<close> is not in the repository.
  Spec, 3: the total number of parallel execution units the remote system created for
  the job.
\<close>

definition job_GetJobTotalExecutionCount :: "Job \<Rightarrow> int" where
  "job_GetJobTotalExecutionCount j = TotalShards j"

text \<open>
  Modelled from the spec: \<^verbatim>\<open>job.WaitForTerminalStates\<close> is not in the repository. Spec,
  4.2a: the job is still running if it has not reached a terminal state for all its
  shards; the test answers ok when all \<open>totalShards\<close> shards are reported and every
  reported shard is terminal. It returns no error.
\<close>

definition job_WaitForTerminalStates :: "int \<Rightarrow> CheckStatesFunction" where
  "job_WaitForTerminalStates totalShards st =
     (if int (length st) < totalShards then (False, None)
      else if list_all IsTerminal st then (True, None)
      else (False, None))"

text \<open>
  Modelled from the spec: \<^verbatim>\<open>job.WaitThrowErrors\<close> is not in the repository. Spec, 4.2c:
  the failure test fires if any shard reports an error state; the source takes the
  answer not-ok, or an error from the predicate, as the trigger. The predicate answers
  not-ok together with an error when a shard is in one of the given error states.
\<close>

definition job_WaitThrowErrors :: "JobStateType list \<Rightarrow> CheckStatesFunction" where
  "job_WaitThrowErrors errorStates st =
     (if list_ex (\<lambda>s. s \<in> set errorStates) st
      then (False, Some (errors_New ''job has error state''))
      else (True, None))"

text \<open>
  Modelled from the spec: \<^verbatim>\<open>job.WaitForJobStates\<close> is not in the repository. Spec, 4.2b:
  true only if the count of shards reporting a state equals the required count exactly,
  for every state that the given map requires.
\<close>

definition job_WaitForJobStates :: "(JobStateType \<rightharpoonup> int) \<Rightarrow> CheckStatesFunction" where
  "job_WaitForJobStates required st =
     (if list_all (\<lambda>s. case required s of None \<Rightarrow> True
                        | Some n \<Rightarrow> int (count_list st s) = n)
           [JobStateRunning, JobStateError, JobStateCompleted]
      then (True, None) else (False, None))"

text \<open>Modelled from the spec: the upstream package, made of the four functions above.\<close>

definition job_pkg :: JobPkg where
  "job_pkg = \<lparr>GetJobTotalExecutionCount = job_GetJobTotalExecutionCount,
              WaitForTerminalStates = job_WaitForTerminalStates,
              WaitThrowErrors = job_WaitThrowErrors,
              WaitForJobStates = job_WaitForJobStates\<rparr>"

subsection \<open>Create\<close>

text \<open>
  \<open>newJob\<close> is what \<^verbatim>\<open>model.NewJobWithSaneProductionDefaults()\<close> returned. The log call
  before the return reads \<^verbatim>\<open>job.Metadata.ID\<close> of the pointer that \<^verbatim>\<open>Submit\<close>
  returned, whether or not \<^verbatim>\<open>Submit\<close> failed; a nil pointer there, or a nil job
  without an error at the start, makes the call panic.
\<close>

definition Create ::
  "Job option \<times> error option \<Rightarrow> 'r APIClient \<Rightarrow> ContractSubmittedEvent \<Rightarrow> 'r
     \<Rightarrow> (BacalhauJobRunningEvent option \<times> error option) outcome \<times> 'r" where
  "Create newJob r e remote =
     (case newJob of (job, err) \<Rightarrow>
        (case err of
           Some x \<Rightarrow>
             (Return (None, Some (errors_Wrap x ''error creating Bacalhau job'')), remote)
         | None \<Rightarrow>
             (case job of
                None \<Rightarrow> (Panic, remote)
              | Some job0 \<Rightarrow>
                  (let job1 = job0\<lparr>Job_Spec := Spec e\<rparr>;
                       job2 = job1\<lparr>Job_Spec := (Job_Spec job1)
                                \<lparr>Annotations := Annotations (Job_Spec job1) @
                                   [LilypadJobAnnotation,
                                    LilypadJobAnnotation @ ''-'' @ OrderId e]\<rparr>\<rparr>;
                       ((job3, err), remote') = Submit r job2 remote;
                       err' = (case err of None \<Rightarrow> None
                               | Some x \<Rightarrow>
                                   Some (errors_Wrap x ''error submitting Bacalhau job''))
                   in (case job3 of
                         None \<Rightarrow> (Panic, remote')
                       | Some j \<Rightarrow> (Return (Some (JobCreated e j), err'), remote'))))))"

subsection \<open>FindCompleted\<close>

text \<open>
  The inner loop over the snapshots for one handle \<open>j\<close>: a snapshot with another
  identifier is skipped (\<^verbatim>\<open>continue\<close>), the first one with the handle's identifier is
  classified and ends the loop (\<^verbatim>\<open>break\<close>).
\<close>

type_synonym results = "BacalhauJobCompletedEvent list \<times> BacalhauJobFailedEvent list"

fun scan_bacjobs :: "JobPkg \<Rightarrow> BacalhauJobRunningEvent \<Rightarrow> Job list \<Rightarrow> results \<Rightarrow> results" where
  "scan_bacjobs job j [] (completed, failed) = (completed, failed)"
| "scan_bacjobs job j (bacjob # rest) (completed, failed) =
     (if Metadata_ID bacjob \<noteq> JobID j then scan_bacjobs job j rest (completed, failed)
      else
        (let totalShards = GetJobTotalExecutionCount job bacjob;
             jobStillRunning = WaitForTerminalStates job totalShards;
             jobHasErrors = WaitThrowErrors job [JobStateError];
             jobComplete = WaitForJobStates job [JobStateCompleted \<mapsto> totalShards]
         in (case jobStillRunning (Status_State bacjob) of (ok, err) \<Rightarrow>
              if \<not> ok \<or> err \<noteq> None then (completed, failed)
              else (case jobComplete (Status_State bacjob) of (ok, err) \<Rightarrow>
                if ok \<and> err = None then (completed @ [Completed j], failed)
                else (case jobHasErrors (Status_State bacjob) of (ok, err) \<Rightarrow>
                  if \<not> ok \<or> err \<noteq> None then (completed, failed @ [Failed j])
                  else (completed, failed))))))"

text \<open>The outer loop over the tracked handles.\<close>

fun scan_jobs :: "JobPkg \<Rightarrow> Job list \<Rightarrow> BacalhauJobRunningEvent list \<Rightarrow> results \<Rightarrow> results" where
  "scan_jobs job bacjobs [] acc = acc"
| "scan_jobs job bacjobs (j # js) acc = scan_jobs job bacjobs js (scan_bacjobs job j bacjobs acc)"

definition FindCompleted ::
  "JobPkg \<Rightarrow> 'r APIClient \<Rightarrow> BacalhauJobRunningEvent list \<Rightarrow> 'r \<Rightarrow> results \<times> 'r" where
  "FindCompleted job runner jobs remote =
     (let completed = [];
          failed = [];
          ((bacjobs, err), remote') = List runner [LilypadJobAnnotation] 100 remote
      in if err \<noteq> None then ((completed, failed), remote')
         else (scan_jobs job bacjobs jobs (completed, failed), remote'))"

subsection \<open>Test doubles and sample data\<close>

text \<open>
  A client with canned answers, in the manner of the package's own test doubles. The
  remote state counts the calls that reached the remote system.
\<close>

definition stub_client ::
  "Job option \<times> error option \<Rightarrow> Job list \<times> error option \<Rightarrow> nat APIClient" where
  "stub_client submitted listed =
     \<lparr>Submit = (\<lambda>job calls. (submitted, Suc calls)),
      List = (\<lambda>tags limit calls. (listed, Suc calls))\<rparr>"

text \<open>The zero value \<^verbatim>\<open>&model.Job{}\<close>.\<close>

definition empty_job :: Job where
  "empty_job = \<lparr>Metadata_ID = [], Job_Spec = \<lparr>Annotations = []\<rparr>,
                 Status_State = [], TotalShards = 0\<rparr>"

definition snapshot :: "string \<Rightarrow> int \<Rightarrow> JobState \<Rightarrow> Job" where
  "snapshot ident n st =
     \<lparr>Metadata_ID = ident, Job_Spec = \<lparr>Annotations = [LilypadJobAnnotation]\<rparr>,
      Status_State = st, TotalShards = n\<rparr>"

definition order1 :: ContractSubmittedEvent where
  "order1 = \<lparr>OrderId = ''1'', Spec = \<lparr>Annotations = []\<rparr>\<rparr>"

definition handle1 :: BacalhauJobRunningEvent where
  "handle1 = \<lparr>Event = order1, JobID = ''job-1''\<rparr>"

definition handle2 :: BacalhauJobRunningEvent where
  "handle2 = \<lparr>Event = order1\<lparr>OrderId := ''2''\<rparr>, JobID = ''job-2''\<rparr>"

section \<open>Properties\<close>

subsection \<open>The loops\<close>

text \<open>What a handle adds to the two result lists does not depend on what is already there.\<close>

lemma scan_bacjobs_acc:
  "scan_bacjobs job j bs (c, f) =
     (c @ fst (scan_bacjobs job j bs ([], [])), f @ snd (scan_bacjobs job j bs ([], [])))"
  by (induction bs) (auto simp: Let_def split: prod.splits)

lemma scan_jobs_acc:
  "scan_jobs job bs js (c, f) =
     (c @ concat (map (\<lambda>j. fst (scan_bacjobs job j bs ([], []))) js),
      f @ concat (map (\<lambda>j. snd (scan_bacjobs job j bs ([], []))) js))"
proof (induction js arbitrary: c f)
  case Nil
  show ?case by simp
next
  case (Cons j js)
  have "scan_bacjobs job j bs (c, f) =
     (c @ fst (scan_bacjobs job j bs ([], [])), f @ snd (scan_bacjobs job j bs ([], [])))"
    by (rule scan_bacjobs_acc)
  then show ?case using Cons.IH by simp
qed

text \<open>One handle adds nothing, its completed event, or its failed event.\<close>

lemma scan_bacjobs_cases:
  "scan_bacjobs job j bs ([], []) = ([], []) \<or>
   scan_bacjobs job j bs ([], []) = ([Completed j], []) \<or>
   scan_bacjobs job j bs ([], []) = ([], [Failed j])"
  by (induction bs) (auto simp: Let_def split: prod.splits)

lemma scan_bacjobs_no_match:
  "JobID j \<notin> Metadata_ID ` set bs \<Longrightarrow> scan_bacjobs job j bs (c, f) = (c, f)"
  by (induction bs) auto

text \<open>The scan stops at the first snapshot with the handle's identifier.\<close>

lemma scan_bacjobs_first_match:
  "find (\<lambda>b. Metadata_ID b = JobID j) bs = Some b \<Longrightarrow>
     scan_bacjobs job j bs (c, f) = scan_bacjobs job j [b] (c, f)"
  by (induction bs) (auto simp: Let_def split: prod.splits if_splits)

lemma scan_bacjobs_break:
  "Metadata_ID b = JobID j \<Longrightarrow>
     scan_bacjobs job j (pre @ b # post) (c, f) = scan_bacjobs job j (pre @ [b]) (c, f)"
  by (induction pre) (auto simp: Let_def split: prod.splits)

lemma find_match_id:
  "find (\<lambda>b. Metadata_ID b = JobID j) bs = Some b \<Longrightarrow> Metadata_ID b = JobID j"
  by (induction bs) (auto split: if_splits)

lemma completed_one:
  "Completed j \<in> set (fst (scan_bacjobs job j' bs ([], []))) \<longleftrightarrow>
     j' = j \<and> scan_bacjobs job j bs ([], []) = ([Completed j], [])"
  using scan_bacjobs_cases [of job j' bs] by auto

lemma failed_one:
  "Failed j \<in> set (snd (scan_bacjobs job j' bs ([], []))) \<longleftrightarrow>
     j' = j \<and> scan_bacjobs job j bs ([], []) = ([], [Failed j])"
  using scan_bacjobs_cases [of job j' bs] by auto

lemma completed_mem_iff:
  "Completed j \<in> set (fst (scan_jobs job bs js ([], []))) \<longleftrightarrow>
     j \<in> set js \<and> scan_bacjobs job j bs ([], []) = ([Completed j], [])"
  by (subst scan_jobs_acc) (auto simp: completed_one)

lemma failed_mem_iff:
  "Failed j \<in> set (snd (scan_jobs job bs js ([], []))) \<longleftrightarrow>
     j \<in> set js \<and> scan_bacjobs job j bs ([], []) = ([], [Failed j])"
  by (subst scan_jobs_acc) (auto simp: failed_one)

lemma FindCompleted_ok:
  "List runner [LilypadJobAnnotation] 100 remote = ((bacjobs, None), remote') \<Longrightarrow>
     FindCompleted job runner jobs remote = (scan_jobs job bacjobs jobs ([], []), remote')"
  by (simp add: FindCompleted_def)

lemma FindCompleted_err:
  "List runner [LilypadJobAnnotation] 100 remote = ((bacjobs, Some err), remote') \<Longrightarrow>
     FindCompleted job runner jobs remote = (([], []), remote')"
  by (simp add: FindCompleted_def)

text \<open>The classification of a handle by the first snapshot that carries its identifier.\<close>

lemma scan_bacjobs_matched:
  assumes "find (\<lambda>b. Metadata_ID b = JobID j) bs = Some b"
    and "WaitForTerminalStates job (GetJobTotalExecutionCount job b) (Status_State b) = (ok1, err1)"
    and "WaitForJobStates job [JobStateCompleted \<mapsto> GetJobTotalExecutionCount job b]
           (Status_State b) = (ok2, err2)"
    and "WaitThrowErrors job [JobStateError] (Status_State b) = (ok3, err3)"
  shows "scan_bacjobs job j bs ([], []) =
           (if \<not> ok1 \<or> err1 \<noteq> None then ([], [])
            else if ok2 \<and> err2 = None then ([Completed j], [])
            else if \<not> ok3 \<or> err3 \<noteq> None then ([], [Failed j])
            else ([], []))"
proof -
  have "Metadata_ID b = JobID j"
    using assms(1) by (rule find_match_id)
  then have "scan_bacjobs job j [b] ([], []) =
           (if \<not> ok1 \<or> err1 \<noteq> None then ([], [])
            else if ok2 \<and> err2 = None then ([Completed j], [])
            else if \<not> ok3 \<or> err3 \<noteq> None then ([], [Failed j])
            else ([], []))"
    using assms(2-4) by (simp add: Let_def)
  then show ?thesis
    using scan_bacjobs_first_match [OF assms(1)] by simp
qed

lemma job_pkg_simps:
  "GetJobTotalExecutionCount job_pkg = job_GetJobTotalExecutionCount"
  "WaitForTerminalStates job_pkg = job_WaitForTerminalStates"
  "WaitThrowErrors job_pkg = job_WaitThrowErrors"
  "WaitForJobStates job_pkg = job_WaitForJobStates"
  by (simp_all add: job_pkg_def)

subsection \<open>FindCompleted: a failed query\<close>

text \<open>
  Claim C4. When the remote list query returns an error (a timeout is such an error),
  \<^verbatim>\<open>FindCompleted\<close> returns two empty lists, whatever handles it was given. Its result
  has no error component, so nothing is propagated to the caller.
\<close>

theorem FindCompleted_query_failure:
  assumes "List runner [LilypadJobAnnotation] 100 remote = ((bacjobs, Some err), remote')"
  shows "FindCompleted job runner jobs remote = (([], []), remote')"
  using assms by (rule FindCompleted_err)

theorem FindCompleted_query_failure_witness:
  "List (stub_client (None, None) ([snapshot ''job-1'' 1 [JobStateCompleted]],
       Some (errors_New ''context deadline exceeded''))) [LilypadJobAnnotation] 100 0
     = (([snapshot ''job-1'' 1 [JobStateCompleted]],
         Some (errors_New ''context deadline exceeded'')), 1)
   \<and> FindCompleted job_pkg (stub_client (None, None) ([snapshot ''job-1'' 1 [JobStateCompleted]],
       Some (errors_New ''context deadline exceeded''))) [handle1] 0 = (([], []), 1)"
proof -
  have h: "List (stub_client (None, None) ([snapshot ''job-1'' 1 [JobStateCompleted]],
       Some (errors_New ''context deadline exceeded''))) [LilypadJobAnnotation] 100 0
     = (([snapshot ''job-1'' 1 [JobStateCompleted]],
         Some (errors_New ''context deadline exceeded'')), 1)"
    by (simp add: stub_client_def)
  show ?thesis
    using h FindCompleted_query_failure [OF h, of job_pkg "[handle1]"] by simp
qed

subsection \<open>FindCompleted: the two results are disjoint parts of the input\<close>

text \<open>
  Claim C3. For every list of running handles, every event of the first result is the
  completed event of an input handle, every event of the second result is the failed
  event of an input handle, and no handle has its completed event in the first result
  and its failed event in the second.
\<close>

theorem FindCompleted_subsets_disjoint:
  "set (fst (fst (FindCompleted job runner jobs remote))) \<subseteq> Completed ` set jobs \<and>
   set (snd (fst (FindCompleted job runner jobs remote))) \<subseteq> Failed ` set jobs \<and>
   (\<forall>j. \<not> (Completed j \<in> set (fst (fst (FindCompleted job runner jobs remote))) \<and>
            Failed j \<in> set (snd (fst (FindCompleted job runner jobs remote)))))"
proof -
  obtain bacjobs err remote' where
    l: "List runner [LilypadJobAnnotation] 100 remote = ((bacjobs, err), remote')"
    by (metis surj_pair)
  show ?thesis
  proof (cases err)
    case (Some x)
    then show ?thesis using FindCompleted_err l by fastforce
  next
    case None
    then have fc: "FindCompleted job runner jobs remote = (scan_jobs job bacjobs jobs ([], []), remote')"
      using l by (simp add: FindCompleted_ok)
    have c: "set (fst (scan_jobs job bacjobs jobs ([], []))) \<subseteq> Completed ` set jobs"
    proof
      fix x assume x: "x \<in> set (fst (scan_jobs job bacjobs jobs ([], [])))"
      obtain j where "x = Completed j" by (cases x)
      then show "x \<in> Completed ` set jobs"
        using x by (simp add: completed_mem_iff)
    qed
    have f: "set (snd (scan_jobs job bacjobs jobs ([], []))) \<subseteq> Failed ` set jobs"
    proof
      fix x assume x: "x \<in> set (snd (scan_jobs job bacjobs jobs ([], [])))"
      obtain j where "x = Failed j" by (cases x)
      then show "x \<in> Failed ` set jobs"
        using x by (simp add: failed_mem_iff)
    qed
    have d: "\<forall>j. \<not> (Completed j \<in> set (fst (scan_jobs job bacjobs jobs ([], []))) \<and>
                    Failed j \<in> set (snd (scan_jobs job bacjobs jobs ([], []))))"
      by (simp add: completed_mem_iff failed_mem_iff)
    show ?thesis using c f d by (simp only: fc fst_conv snd_conv) simp
  qed
qed

theorem FindCompleted_subsets_disjoint_witness:
  "set (fst (fst (FindCompleted job_pkg (stub_client (None, None)
        ([snapshot ''job-2'' 1 [JobStateError], snapshot ''job-1'' 1 [JobStateCompleted]], None))
        [handle1, handle2] 0))) = {Completed handle1}
   \<and> set (snd (fst (FindCompleted job_pkg (stub_client (None, None)
        ([snapshot ''job-2'' 1 [JobStateError], snapshot ''job-1'' 1 [JobStateCompleted]], None))
        [handle1, handle2] 0))) = {Failed handle2}
   \<and> {Completed handle1} \<subseteq> Completed ` set [handle1, handle2]
   \<and> {Failed handle2} \<subseteq> Failed ` set [handle1, handle2]
   \<and> Failed handle1 \<notin> {Failed handle2}"
proof -
  let ?r = "stub_client (None, None)
        ([snapshot ''job-2'' 1 [JobStateError], snapshot ''job-1'' 1 [JobStateCompleted]], None)"
  have e: "fst (FindCompleted job_pkg ?r [handle1, handle2] 0) = ([Completed handle1], [Failed handle2])"
    by (simp add: FindCompleted_def stub_client_def snapshot_def handle1_def handle2_def
        job_pkg_simps job_GetJobTotalExecutionCount_def job_WaitForTerminalStates_def
        job_WaitForJobStates_def job_WaitThrowErrors_def IsTerminal_def)
  show ?thesis
    using FindCompleted_subsets_disjoint [of job_pkg ?r "[handle1, handle2]" 0]
    by (simp add: e)
qed

subsection \<open>FindCompleted: a terminal job that is not complete\<close>

text \<open>
  Claim C2. Take a tracked handle and the first snapshot with its identifier. When the
  terminal-state test passes on the snapshot and the completion test does not, the
  handle's failed event is in the failed result exactly when the error-state predicate
  answers not-ok or returns an error. The instance below is the job of two shards, one
  completed and one errored.
\<close>

theorem FindCompleted_failed_iff_error_predicate:
  assumes "List runner [LilypadJobAnnotation] 100 remote = ((bacjobs, None), remote')"
    and "j \<in> set jobs"
    and "find (\<lambda>b. Metadata_ID b = JobID j) bacjobs = Some bacjob"
    and "totalShards = GetJobTotalExecutionCount job bacjob"
    and "WaitForTerminalStates job totalShards (Status_State bacjob) = (True, None)"
    and "WaitForJobStates job [JobStateCompleted \<mapsto> totalShards] (Status_State bacjob) = (ok2, err2)"
    and "\<not> (ok2 \<and> err2 = None)"
    and "WaitThrowErrors job [JobStateError] (Status_State bacjob) = (ok, err)"
  shows "Failed j \<in> set (snd (fst (FindCompleted job runner jobs remote)))
           \<longleftrightarrow> (\<not> ok \<or> err \<noteq> None)"
proof -
  have "scan_bacjobs job j bacjobs ([], []) =
          (if \<not> ok \<or> err \<noteq> None then ([], [Failed j]) else ([], []))"
    using scan_bacjobs_matched [OF assms(3) assms(5) [unfolded assms(4)]
        assms(6) [unfolded assms(4)] assms(8)] assms(7)
    by auto
  then have "Failed j \<in> set (snd (scan_jobs job bacjobs jobs ([], []))) \<longleftrightarrow> (\<not> ok \<or> err \<noteq> None)"
    using assms(2) by (simp add: failed_mem_iff)
  then show ?thesis
    by (simp add: FindCompleted_ok [OF assms(1)])
qed

theorem FindCompleted_failed_iff_error_predicate_witness:
  "List (stub_client (None, None)
       ([snapshot ''job-1'' 2 [JobStateCompleted, JobStateError]], None)) [LilypadJobAnnotation] 100 0
     = (([snapshot ''job-1'' 2 [JobStateCompleted, JobStateError]], None), 1)
   \<and> handle1 \<in> set [handle1]
   \<and> find (\<lambda>b. Metadata_ID b = JobID handle1)
        [snapshot ''job-1'' 2 [JobStateCompleted, JobStateError]]
        = Some (snapshot ''job-1'' 2 [JobStateCompleted, JobStateError])
   \<and> GetJobTotalExecutionCount job_pkg (snapshot ''job-1'' 2 [JobStateCompleted, JobStateError]) = 2
   \<and> WaitForTerminalStates job_pkg 2 [JobStateCompleted, JobStateError] = (True, None)
   \<and> WaitForJobStates job_pkg [JobStateCompleted \<mapsto> 2] [JobStateCompleted, JobStateError]
        = (False, None)
   \<and> WaitThrowErrors job_pkg [JobStateError] [JobStateCompleted, JobStateError]
        = (False, Some (errors_New ''job has error state''))
   \<and> Failed handle1 \<in> set (snd (fst (FindCompleted job_pkg (stub_client (None, None)
       ([snapshot ''job-1'' 2 [JobStateCompleted, JobStateError]], None)) [handle1] 0)))"
proof -
  let ?b = "snapshot ''job-1'' 2 [JobStateCompleted, JobStateError]"
  let ?r = "stub_client (None, None) ([?b], None)"
  have h1: "List ?r [LilypadJobAnnotation] 100 0 = (([?b], None), 1)"
    by (simp add: stub_client_def)
  have h2: "handle1 \<in> set [handle1]" by simp
  have h3: "find (\<lambda>b. Metadata_ID b = JobID handle1) [?b] = Some ?b"
    by (simp add: snapshot_def handle1_def)
  have h4: "2 = GetJobTotalExecutionCount job_pkg ?b"
    by (simp add: job_pkg_simps job_GetJobTotalExecutionCount_def snapshot_def)
  have st: "Status_State ?b = [JobStateCompleted, JobStateError]"
    by (simp add: snapshot_def)
  have h5: "WaitForTerminalStates job_pkg 2 (Status_State ?b) = (True, None)"
    by (simp add: st job_pkg_simps job_WaitForTerminalStates_def IsTerminal_def)
  have h6: "WaitForJobStates job_pkg [JobStateCompleted \<mapsto> 2] (Status_State ?b) = (False, None)"
    by (simp add: st job_pkg_simps job_WaitForJobStates_def)
  have h7: "\<not> (False \<and> (None :: error option) = None)" by simp
  have h8: "WaitThrowErrors job_pkg [JobStateError] (Status_State ?b)
              = (False, Some (errors_New ''job has error state''))"
    by (simp add: st job_pkg_simps job_WaitThrowErrors_def)
  show ?thesis
    using FindCompleted_failed_iff_error_predicate [OF h1 h2 h3 h4 h5 h6 h7 h8]
      h1 h2 h3 h4 h5 h6 h8
    by (simp add: st)
qed

subsection \<open>FindCompleted: a job whose shards all completed\<close>

text \<open>
  Claim C5. With the upstream predicates as the spec describes them: a tracked handle
  whose first matching snapshot has a total shard count of at least one, only terminal
  shard states, and as many completed shards as the total shard count, has its completed
  event in the first result.
\<close>

theorem FindCompleted_all_shards_completed:
  assumes "List runner [LilypadJobAnnotation] 100 remote = ((bacjobs, None), remote')"
    and "j \<in> set jobs"
    and "find (\<lambda>b. Metadata_ID b = JobID j) bacjobs = Some bacjob"
    and "1 \<le> TotalShards bacjob"
    and "list_all IsTerminal (Status_State bacjob)"
    and "int (count_list (Status_State bacjob) JobStateCompleted) = TotalShards bacjob"
  shows "Completed j \<in> set (fst (fst (FindCompleted job_pkg runner jobs remote)))"
proof -
  have "count_list (Status_State bacjob) JobStateCompleted \<le> length (Status_State bacjob)"
    by (rule count_le_length)
  then have t: "WaitForTerminalStates job_pkg (GetJobTotalExecutionCount job_pkg bacjob)
                  (Status_State bacjob) = (True, None)"
    using assms(5,6)
    by (simp add: job_pkg_simps job_GetJobTotalExecutionCount_def job_WaitForTerminalStates_def)
  have c: "WaitForJobStates job_pkg [JobStateCompleted \<mapsto> GetJobTotalExecutionCount job_pkg bacjob]
             (Status_State bacjob) = (True, None)"
    using assms(6)
    by (simp add: job_pkg_simps job_GetJobTotalExecutionCount_def job_WaitForJobStates_def)
  obtain ok3 err3 where e: "WaitThrowErrors job_pkg [JobStateError] (Status_State bacjob) = (ok3, err3)"
    by (cases "WaitThrowErrors job_pkg [JobStateError] (Status_State bacjob)")
  have "scan_bacjobs job_pkg j bacjobs ([], []) = ([Completed j], [])"
    using scan_bacjobs_matched [OF assms(3) t c e] by simp
  then have "Completed j \<in> set (fst (scan_jobs job_pkg bacjobs jobs ([], [])))"
    using assms(2) by (simp add: completed_mem_iff)
  then show ?thesis
    by (simp add: FindCompleted_ok [OF assms(1)])
qed

theorem FindCompleted_all_shards_completed_witness:
  "List (stub_client (None, None)
      ([snapshot ''job-1'' 3 [JobStateCompleted, JobStateCompleted, JobStateCompleted]], None))
      [LilypadJobAnnotation] 100 0
     = (([snapshot ''job-1'' 3 [JobStateCompleted, JobStateCompleted, JobStateCompleted]], None), 1)
   \<and> handle1 \<in> set [handle1]
   \<and> find (\<lambda>b. Metadata_ID b = JobID handle1)
        [snapshot ''job-1'' 3 [JobStateCompleted, JobStateCompleted, JobStateCompleted]]
        = Some (snapshot ''job-1'' 3 [JobStateCompleted, JobStateCompleted, JobStateCompleted])
   \<and> 1 \<le> TotalShards (snapshot ''job-1'' 3 [JobStateCompleted, JobStateCompleted, JobStateCompleted])
   \<and> list_all IsTerminal [JobStateCompleted, JobStateCompleted, JobStateCompleted]
   \<and> int (count_list [JobStateCompleted, JobStateCompleted, JobStateCompleted] JobStateCompleted) = 3
   \<and> Completed handle1 \<in> set (fst (fst (FindCompleted job_pkg (stub_client (None, None)
      ([snapshot ''job-1'' 3 [JobStateCompleted, JobStateCompleted, JobStateCompleted]], None))
      [handle1] 0)))"
proof -
  let ?b = "snapshot ''job-1'' 3 [JobStateCompleted, JobStateCompleted, JobStateCompleted]"
  let ?r = "stub_client (None, None) ([?b], None)"
  have h1: "List ?r [LilypadJobAnnotation] 100 0 = (([?b], None), 1)"
    by (simp add: stub_client_def)
  have h2: "handle1 \<in> set [handle1]" by simp
  have h3: "find (\<lambda>b. Metadata_ID b = JobID handle1) [?b] = Some ?b"
    by (simp add: snapshot_def handle1_def)
  have h4: "1 \<le> TotalShards ?b"
    by (simp add: snapshot_def)
  have st: "Status_State ?b = [JobStateCompleted, JobStateCompleted, JobStateCompleted]"
    by (simp add: snapshot_def)
  have h5: "list_all IsTerminal (Status_State ?b)"
    by (simp add: st IsTerminal_def)
  have h6: "int (count_list (Status_State ?b) JobStateCompleted) = TotalShards ?b"
    by (simp add: snapshot_def)
  show ?thesis
    using FindCompleted_all_shards_completed [OF h1 h2 h3 h4 h5 h6] h1 h2 h3 h4 h5 h6
    by (simp add: st)
qed

subsection \<open>FindCompleted: a job that is still executing\<close>




subsection \<open>FindCompleted: a handle the remote system does not report\<close>

text \<open>
  Claim C7. A handle whose job identifier is the identifier of no snapshot returned by
  the list call is in neither result.
\<close>

theorem FindCompleted_unmatched_handle:
  assumes "List runner [LilypadJobAnnotation] 100 remote = ((bacjobs, err), remote')"
    and "JobID j \<notin> Metadata_ID ` set bacjobs"
  shows "Completed j \<notin> set (fst (fst (FindCompleted job runner jobs remote))) \<and>
         Failed j \<notin> set (snd (fst (FindCompleted job runner jobs remote)))"
proof (cases err)
  case (Some x)
  then show ?thesis
    using FindCompleted_err [of runner remote bacjobs x remote'] assms(1) by simp
next
  case None
  have "scan_bacjobs job j bacjobs ([], []) = ([], [])"
    using assms(2) by (rule scan_bacjobs_no_match)
  then show ?thesis
    using None assms(1)
    by (simp add: FindCompleted_ok completed_mem_iff failed_mem_iff)
qed

theorem FindCompleted_unmatched_handle_witness:
  "List (stub_client (None, None) ([snapshot ''job-1'' 1 [JobStateCompleted]], None))
      [LilypadJobAnnotation] 100 0
     = (([snapshot ''job-1'' 1 [JobStateCompleted]], None), 1)
   \<and> JobID handle2 \<notin> Metadata_ID ` set [snapshot ''job-1'' 1 [JobStateCompleted]]
   \<and> Completed handle2 \<notin> set (fst (fst (FindCompleted job_pkg (stub_client (None, None)
      ([snapshot ''job-1'' 1 [JobStateCompleted]], None)) [handle1, handle2] 0)))
   \<and> Failed handle2 \<notin> set (snd (fst (FindCompleted job_pkg (stub_client (None, None)
      ([snapshot ''job-1'' 1 [JobStateCompleted]], None)) [handle1, handle2] 0)))"
proof -
  let ?b = "snapshot ''job-1'' 1 [JobStateCompleted]"
  let ?r = "stub_client (None, None) ([?b], None)"
  have h1: "List ?r [LilypadJobAnnotation] 100 0 = (([?b], None), 1)"
    by (simp add: stub_client_def)
  have h2: "JobID handle2 \<notin> Metadata_ID ` set [?b]"
    by (simp add: snapshot_def handle2_def)
  show ?thesis
    using FindCompleted_unmatched_handle [OF h1 h2, of job_pkg "[handle1, handle2]"] h1 h2
    by simp
qed

subsection \<open>FindCompleted: the same answer gives the same classification\<close>

text \<open>
  Claim C8. Two invocations of \<^verbatim>\<open>FindCompleted\<close> one after the other, with the same
  handles, return the same completed and failed lists whenever the remote list call
  gives the same response in both, whatever else changed in the remote system.
\<close>

theorem FindCompleted_same_response_same_result:
  assumes "FindCompleted job runner jobs remote0 = (first, remote1)"
    and "FindCompleted job runner jobs remote1 = (second, remote2)"
    and "fst (List runner [LilypadJobAnnotation] 100 remote0) =
         fst (List runner [LilypadJobAnnotation] 100 remote1)"
  shows "first = second"
proof -
  obtain bacjobs err r0 where
    l0: "List runner [LilypadJobAnnotation] 100 remote0 = ((bacjobs, err), r0)"
    by (metis surj_pair)
  obtain bacjobs' err' r1 where
    l1: "List runner [LilypadJobAnnotation] 100 remote1 = ((bacjobs', err'), r1)"
    by (metis surj_pair)
  have same: "bacjobs' = bacjobs" "err' = err"
    using assms(3) l0 l1 by simp_all
  have "fst (FindCompleted job runner jobs remote0) = fst (FindCompleted job runner jobs remote1)"
  proof (cases err)
    case None
    then show ?thesis
      using l0 l1 same by (simp add: FindCompleted_ok)
  next
    case (Some x)
    then show ?thesis
      using FindCompleted_err [of runner remote0 bacjobs x r0]
        FindCompleted_err [of runner remote1 bacjobs x r1] l0 l1 same
      by simp
  qed
  then show ?thesis
    using assms(1,2) by simp
qed

theorem FindCompleted_same_response_same_result_witness:
  "FindCompleted job_pkg (stub_client (None, None)
      ([snapshot ''job-1'' 1 [JobStateCompleted], snapshot ''job-2'' 1 [JobStateError]], None))
      [handle1, handle2] 0 = (([Completed handle1], [Failed handle2]), 1)
   \<and> FindCompleted job_pkg (stub_client (None, None)
      ([snapshot ''job-1'' 1 [JobStateCompleted], snapshot ''job-2'' 1 [JobStateError]], None))
      [handle1, handle2] 1 = (([Completed handle1], [Failed handle2]), 2)
   \<and> fst (List (stub_client (None, None)
      ([snapshot ''job-1'' 1 [JobStateCompleted], snapshot ''job-2'' 1 [JobStateError]], None))
      [LilypadJobAnnotation] 100 0)
     = fst (List (stub_client (None, None)
      ([snapshot ''job-1'' 1 [JobStateCompleted], snapshot ''job-2'' 1 [JobStateError]], None))
      [LilypadJobAnnotation] 100 1)"
proof -
  let ?r = "stub_client (None, None)
      ([snapshot ''job-1'' 1 [JobStateCompleted], snapshot ''job-2'' 1 [JobStateError]], None)"
  obtain first remote1 where h1: "FindCompleted job_pkg ?r [handle1, handle2] 0 = (first, remote1)"
    by (metis surj_pair)
  have r1: "remote1 = 1"
    using h1 by (simp add: FindCompleted_def stub_client_def split: prod.splits)
  obtain second remote2 where h2: "FindCompleted job_pkg ?r [handle1, handle2] remote1 = (second, remote2)"
    by (metis surj_pair)
  have r2: "remote2 = 2"
    using h2 r1 by (simp add: FindCompleted_def stub_client_def split: prod.splits)
  have h3: "fst (List ?r [LilypadJobAnnotation] 100 0) = fst (List ?r [LilypadJobAnnotation] 100 remote1)"
    by (simp add: stub_client_def)
  have same: "first = second"
    using FindCompleted_same_response_same_result [OF h1 h2 h3] .
  have e: "fst (FindCompleted job_pkg ?r [handle1, handle2] 0) = ([Completed handle1], [Failed handle2])"
    by (simp add: FindCompleted_def stub_client_def snapshot_def handle1_def handle2_def
        job_pkg_simps job_GetJobTotalExecutionCount_def job_WaitForTerminalStates_def
        job_WaitForJobStates_def job_WaitThrowErrors_def IsTerminal_def)
  then have "first = ([Completed handle1], [Failed handle2])"
    using h1 by simp
  then show ?thesis
    using same h1 h2 h3 r1 r2 by simp
qed

subsection \<open>Create: the job cannot be constructed\<close>

text \<open>
  Claim C9. When constructing the default job fails, \<^verbatim>\<open>Create\<close> returns a nil
  handle and the error wrapped with "error creating Bacalhau job". The remote system is
  left as it was under every client, so \<^verbatim>\<open>Submit\<close> was not called: the client of the
  instance below counts its calls.
\<close>

theorem Create_job_construction_failure:
  "Create (newJob, Some err) r e remote =
     (Return (None, Some (errors_Wrap err ''error creating Bacalhau job'')), remote)"
  by (simp add: Create_def)

theorem Create_job_construction_failure_witness:
  "Create (None, Some (errors_New ''no config''))
      (stub_client (Some empty_job, None) ([], None)) order1 0 =
     (Return (None, Some (errors_Wrap (errors_New ''no config'') ''error creating Bacalhau job'')), 0)
   \<and> snd (Submit (stub_client (Some empty_job, None) ([], None)) empty_job 0) = 1"
  using Create_job_construction_failure [of None "errors_New ''no config''"
      "stub_client (Some empty_job, None) ([], None)" order1 0]
  by (simp add: stub_client_def)

subsection \<open>FindCompleted: at most one outcome for each handle\<close>







subsection \<open>Create: the submission fails\<close>

text \<open>
  After a failed \<^verbatim>\<open>Submit\<close> the error is wrapped, and the function goes on to the log
  call and the final return: the result carries a handle built from the job that
  \<^verbatim>\<open>Submit\<close> returned, and the wrapped error. When \<^verbatim>\<open>Submit\<close> returns a nil job, the
  log call panics. Every handle that \<^verbatim>\<open>Create\<close> returns has the order identifier of
  the event.
\<close>

lemma Create_submit_failure:
  assumes "Submit r (job0\<lparr>Job_Spec := (Spec e)\<lparr>Annotations := Annotations (Spec e) @
              [LilypadJobAnnotation, LilypadJobAnnotation @ ''-'' @ OrderId e]\<rparr>\<rparr>) remote
             = ((Some j, Some x), remote')"
  shows "Create (Some job0, None) r e remote =
           (Return (Some (JobCreated e j), Some (errors_Wrap x ''error submitting Bacalhau job'')),
            remote')"
  using assms by (simp add: Create_def Let_def)

lemma Create_submit_nil_job:
  assumes "Submit r (job0\<lparr>Job_Spec := (Spec e)\<lparr>Annotations := Annotations (Spec e) @
              [LilypadJobAnnotation, LilypadJobAnnotation @ ''-'' @ OrderId e]\<rparr>\<rparr>) remote
             = ((None, err), remote')"
  shows "Create (Some job0, None) r e remote = (Panic, remote')"
  using assms by (simp add: Create_def Let_def)

lemma Create_success:
  assumes "Submit r (job0\<lparr>Job_Spec := (Spec e)\<lparr>Annotations := Annotations (Spec e) @
              [LilypadJobAnnotation, LilypadJobAnnotation @ ''-'' @ OrderId e]\<rparr>\<rparr>) remote
             = ((Some j, None), remote')"
  shows "Create (Some job0, None) r e remote = (Return (Some (JobCreated e j), None), remote')"
  using assms by (simp add: Create_def Let_def)

lemma Create_handle_OrderId:
  assumes "Create newJob r e remote = (Return (Some h, err), remote')"
  shows "Running_OrderId h = OrderId e"
  using assms
  by (auto simp: Create_def Let_def JobCreated_def Running_OrderId_def
      split: prod.splits option.splits)

text \<open>
  Claim C1. \<^verbatim>\<open>Create\<close> is claimed to yield a handle with the order identifier of the
  event or an error, never both. Evaluated for an order whose submission fails with the
  remote client returning an empty job and an error: the result is a handle together
  with the wrapped error.
\<close>

theorem Create_submit_failure_returns_handle_and_error:
  "Create (Some empty_job, None)
      (stub_client (Some empty_job, Some (errors_New ''connection refused'')) ([], None))
      order1 0 =
     (Return (Some \<lparr>Event = order1, JobID = []\<rparr>,
              Some (errors_Wrap (errors_New ''connection refused'')
                      ''error submitting Bacalhau job'')), 1)"
  by (simp add: Create_def stub_client_def JobCreated_def empty_job_def)

end
